theory Spec2Isabelle
  imports Complex_Main
begin

section \<open>Data model\<close>

text \<open>
  The analytics views of \<^verbatim>\<open>analytics/views.py\<close>. Times are integers counting
  microseconds since 0001-01-01T00:00:00, the resolution and origin of Python's
  \<^verbatim>\<open>datetime\<close>; a calendar day is the quotient by the microseconds of one day.
\<close>

type_synonym timestamp = int

record auth_user =
  user_id :: nat
  is_staff :: bool

text \<open>
  \<^verbatim>\<open>request.user\<close> is set by the framework's authentication: the anonymous user
  when no credential was presented, the user of a valid credential otherwise.
\<close>

datatype actor = AnonymousUser | User auth_user

fun is_authenticated :: "actor \<Rightarrow> bool" where
  "is_authenticated AnonymousUser = False"
| "is_authenticated (User u) = True"

fun actor_is_staff :: "actor \<Rightarrow> bool" where
  "actor_is_staff AnonymousUser = False"
| "actor_is_staff (User u) = is_staff u"

record request =
  http_method :: string
  user :: actor
  GET :: "string \<rightharpoonup> string"
  data :: "string \<rightharpoonup> string"
  META :: "string \<rightharpoonup> string"

text \<open>\<^verbatim>\<open>d.get(key, default)\<close> of a dictionary.\<close>

definition dict_get :: "('k \<rightharpoonup> 'v) \<Rightarrow> 'k \<Rightarrow> 'v \<Rightarrow> 'v" where
  "dict_get d k dflt = (case d k of None \<Rightarrow> dflt | Some v \<Rightarrow> v)"

record connection_fields =
  wc_user :: actor
  wallet_provider :: string
  wallet_address :: string
  connection_status :: string
  error_message :: string
  ip_address :: string
  user_agent :: string

record wallet_connection = connection_fields +
  attempted_at :: timestamp

record retention_cohort =
  cohort_date :: int
  period_type :: string
  period_number :: nat
  total_users :: nat
  retained_users :: nat
  retention_rate :: rat

text \<open>
  The record store: the wallet connections in insertion order, the behaviour-metrics
  row of each user that has one (the reverse one-to-one accessor
  \<^verbatim>\<open>user.behavior_metrics\<close>), and the retention-cohort rows.
\<close>

record 'm db =
  wallet_connections :: "wallet_connection list"
  behavior_metrics :: "nat \<rightharpoonup> 'm"
  retention_cohorts :: "retention_cohort list"

text \<open>
  The exceptions that leave a view: the \<^verbatim>\<open>ValueError\<close> of \<^verbatim>\<open>int()\<close>, carrying the
  text it rejected, the \<^verbatim>\<open>OverflowError\<close> of date arithmetic, and any other exception,
  carrying its text.
\<close>

datatype exn = ValueError string | OverflowError | Raised string

text \<open>
  Responses: \<^verbatim>\<open>Response(data, status)\<close> of the REST framework (status 200 when
  omitted), \<^verbatim>\<open>render(request, template, context)\<close>, and the redirect to the
  login page.
\<close>

datatype 'd body = Dict "(string \<times> string) list" | Data 'd | Metadata

datatype ('d, 'c) response =
    Response "'d body" nat
  | render string 'c
  | redirect_to_login string

fun status_code :: "('d, 'c) response \<Rightarrow> nat" where
  "status_code (Response b s) = s"
| "status_code (render t c) = 200"
| "status_code (redirect_to_login url) = 302"

text \<open>
  A view takes the request and the store and returns or raises, with the store after
  it. A view that sends no data, or renders no template, has \<open>unit\<close> there.
\<close>

type_synonym ('s, 'd, 'c) view = "request \<Rightarrow> 's \<Rightarrow> (exn + ('d, 'c) response) \<times> 's"

section \<open>The framework's decorators\<close>

text \<open>
  The project's settings are not part of the sources; the three that the decorators
  read are parameters: the \<^verbatim>\<open>WWW-Authenticate\<close> header of each configured
  authenticator (\<open>None\<close> for one that has none), the default permission classes, and
  the login URL.
\<close>

datatype permission = AllowAny | IsAuthenticated

record settings =
  authenticators :: "string option list"
  DEFAULT_PERMISSION_CLASSES :: "permission list"
  LOGIN_URL :: string

fun has_permission :: "permission \<Rightarrow> request \<Rightarrow> bool" where
  "has_permission AllowAny request = True"
| "has_permission IsAuthenticated request = is_authenticated (user request)"

text \<open>
  A failed permission check of the REST framework: with an authenticator configured
  and none successful the failure is \<^verbatim>\<open>NotAuthenticated\<close>, answered with 401 when the
  first authenticator has a \<^verbatim>\<open>WWW-Authenticate\<close> header and with 403 when it has
  none; otherwise it is \<^verbatim>\<open>PermissionDenied\<close>, answered with 403.
\<close>

definition permission_denied :: "settings \<Rightarrow> request \<Rightarrow> ('d, 'c) response" where
  "permission_denied cfg request =
     (case authenticators cfg of
        a # _ \<Rightarrow>
          (if is_authenticated (user request)
           then Response (Dict [(''detail'', ''You do not have permission to perform this action.'')]) 403
           else Response (Dict [(''detail'', ''Authentication credentials were not provided.'')])
                  (case a of Some h \<Rightarrow> 401 | None \<Rightarrow> 403))
      | [] \<Rightarrow>
          Response (Dict [(''detail'', ''You do not have permission to perform this action.'')]) 403)"

text \<open>
  \<^verbatim>\<open>@api_view(methods)\<close> with the permission classes the view function carries: the
  permission checks run first, then the method is dispatched (the listed methods to
  the function, \<^verbatim>\<open>OPTIONS\<close> to the framework's metadata handler, anything else to
  405). An exception of the function that is not one of the framework's own is raised
  again.
\<close>

definition api_view ::
  "settings \<Rightarrow> string list \<Rightarrow> permission list \<Rightarrow> ('s, 'd, 'c) view \<Rightarrow> ('s, 'd, 'c) view" where
  "api_view cfg http_method_names perms func request s =
     (if \<not> list_all (\<lambda>p. has_permission p request) perms
      then (Inr (permission_denied cfg request), s)
      else if http_method request \<in> set http_method_names then func request s
      else if http_method request = ''OPTIONS'' then (Inr (Response Metadata 200), s)
      else (Inr (Response (Dict [(''detail'',
               ''Method '' @ [CHR 0x22] @ http_method request @ [CHR 0x22] @ '' not allowed.'')]) 405), s))"

text \<open>
  \<^verbatim>\<open>@user_passes_test(test_func)\<close> of \<^verbatim>\<open>django.contrib.auth.decorators\<close>: the view
  runs when the test passes, and the caller is redirected to the login page when it
  does not.
\<close>

definition user_passes_test ::
  "settings \<Rightarrow> (actor \<Rightarrow> bool) \<Rightarrow> ('s, 'd, 'c) view \<Rightarrow> ('s, 'd, 'c) view" where
  "user_passes_test cfg test_func view_func request s =
     (if test_func (user request) then view_func request s
      else (Inr (redirect_to_login (LOGIN_URL cfg)), s))"

text \<open>
  Authentication comes before the permission checks. A request presents no credential,
  an invalid one or a valid one. \<^verbatim>\<open>request.user\<close> is the user of a valid credential
  and the anonymous user when none is presented; an invalid credential is refused by the
  authenticator with \<^verbatim>\<open>AuthenticationFailed\<close>, which is answered with the
  authenticator's detail and status 401 when the first authenticator has a
  \<^verbatim>\<open>WWW-Authenticate\<close> header, 403 when it has none. With no authenticator
  configured every request is anonymous.
\<close>

datatype credential = NoCredential | InvalidCredential string | ValidCredential auth_user

definition perform_authentication ::
  "settings \<Rightarrow> credential \<Rightarrow> ('s, 'd, 'c) view \<Rightarrow> ('s, 'd, 'c) view" where
  "perform_authentication cfg cred endpoint request s =
     (case authenticators cfg of
        [] \<Rightarrow> endpoint (request\<lparr>user := AnonymousUser\<rparr>) s
      | a # _ \<Rightarrow>
          (case cred of
             NoCredential \<Rightarrow> endpoint (request\<lparr>user := AnonymousUser\<rparr>) s
           | InvalidCredential detail \<Rightarrow>
               (Inr (Response (Dict [(''detail'', detail)])
                       (case a of Some h \<Rightarrow> 401 | None \<Rightarrow> 403)), s)
           | ValidCredential u \<Rightarrow> endpoint (request\<lparr>user := User u\<rparr>) s))"

section \<open>The views\<close>

definition is_staff_user :: "actor \<Rightarrow> bool" where
  "is_staff_user u = actor_is_staff u"

definition jwt_staff_required :: "settings \<Rightarrow> ('s, 'd, 'c) view \<Rightarrow> ('s, 'd, 'c) view" where
  "jwt_staff_required cfg view_func =
     api_view cfg [''GET''] [IsAuthenticated]
       (user_passes_test cfg is_staff_user (\<lambda>request. view_func request))"

text \<open>
  \<^verbatim>\<open>analytics_dashboard\<close> and \<^verbatim>\<open>user_behavior\<close> stand behind this decorator as
  well. Their bodies read the session and page-view tables and are not spelled out;
  what is proved of \<open>jwt_staff_required\<close> is proved for every view function.
\<close>

subsection \<open>Connection tracking\<close>

text \<open>
  The keyword arguments of \<^verbatim>\<open>WalletConnection.objects.create\<close>, read from the request:
  the payload fields with their defaults, and the client address and user agent of the
  request's metadata.
\<close>

definition create_kwargs :: "request \<Rightarrow> connection_fields" where
  "create_kwargs request =
     \<lparr>wc_user = user request,
      wallet_provider = dict_get (data request) ''provider'' ''other'',
      wallet_address = dict_get (data request) ''address'' [],
      connection_status = dict_get (data request) ''status'' ''failed'',
      error_message = dict_get (data request) ''error'' [],
      ip_address = dict_get (META request) ''REMOTE_ADDR'' [],
      user_agent = dict_get (META request) ''HTTP_USER_AGENT'' []\<rparr>"

text \<open>
  \<^verbatim>\<open>WalletConnection.objects.create(...)\<close>: the store either refuses the row with an
  exception (\<open>rejects\<close>, a parameter: constraints and field validation belong to the
  model class and the database) or appends it. The time of the attempt, which the view
  never passes and later filters on, is filled in at creation. Inside the \<^verbatim>\<open>try\<close>
  block an exception is its text \<^verbatim>\<open>str(e)\<close>, which is all the handler reads.
\<close>

definition stored :: "connection_fields \<Rightarrow> timestamp \<Rightarrow> wallet_connection" where
  "stored kw now =
     \<lparr>wc_user = wc_user kw, wallet_provider = wallet_provider kw,
      wallet_address = wallet_address kw, connection_status = connection_status kw,
      error_message = error_message kw, ip_address = ip_address kw,
      user_agent = user_agent kw, attempted_at = now\<rparr>"

definition objects_create ::
  "('m db \<Rightarrow> connection_fields \<Rightarrow> string option) \<Rightarrow> timestamp \<Rightarrow> connection_fields \<Rightarrow> 'm db
     \<Rightarrow> (string + unit) \<times> 'm db" where
  "objects_create rejects now kw s =
     (case rejects s kw of
        Some e \<Rightarrow> (Inl e, s)
      | None \<Rightarrow> (Inr (), s\<lparr>wallet_connections := wallet_connections s @ [stored kw now]\<rparr>))"

text \<open>
  The body of the \<^verbatim>\<open>try\<close> block. \<open>update_metrics\<close> is the method of the metrics row
  (a parameter: it reads the store and returns the row's new value, or raises). The
  attribute test \<^verbatim>\<open>hasattr(request.user, "behavior_metrics")\<close> is the lookup of the
  user's row, and the test \<^verbatim>\<open>request.user.is_authenticated\<close> the case distinction
  on the actor.
\<close>

definition track_wallet_connection_try ::
  "('m db \<Rightarrow> connection_fields \<Rightarrow> string option) \<Rightarrow> ('m db \<Rightarrow> 'm \<Rightarrow> string + 'm) \<Rightarrow> timestamp
     \<Rightarrow> request \<Rightarrow> 'm db \<Rightarrow> (string + (unit, unit) response) \<times> 'm db" where
  "track_wallet_connection_try rejects update_metrics now request s =
     (case user request of
        User u \<Rightarrow>
          (case objects_create rejects now (create_kwargs request) s of
             (Inl e, s1) \<Rightarrow> (Inl e, s1)
           | (Inr _, s1) \<Rightarrow>
               (case behavior_metrics s1 (user_id u) of
                  None \<Rightarrow> (Inr (Response (Dict [(''status'', ''success'')]) 200), s1)
                | Some m \<Rightarrow>
                    (case update_metrics s1 m of
                       Inl e \<Rightarrow> (Inl e, s1)
                     | Inr m' \<Rightarrow>
                         (Inr (Response (Dict [(''status'', ''success'')]) 200),
                          s1\<lparr>behavior_metrics := (behavior_metrics s1)(user_id u \<mapsto> m')\<rparr>))))
      | AnonymousUser \<Rightarrow>
          (Inr (Response (Dict [(''status'', ''error''), (''message'', ''User not authenticated'')])
                  401), s))"

text \<open>The function with its \<^verbatim>\<open>except Exception\<close> handler: it always returns a response.\<close>

definition track_wallet_connection_func ::
  "('m db \<Rightarrow> connection_fields \<Rightarrow> string option) \<Rightarrow> ('m db \<Rightarrow> 'm \<Rightarrow> string + 'm) \<Rightarrow> timestamp
     \<Rightarrow> ('m db, unit, unit) view" where
  "track_wallet_connection_func rejects update_metrics now request s =
     (case track_wallet_connection_try rejects update_metrics now request s of
        (Inl e, s') \<Rightarrow>
          (Inr (Response (Dict [(''status'', ''error''), (''message'', e)]) 400), s')
      | (Inr r, s') \<Rightarrow> (Inr r, s'))"

text \<open>
  The endpoint, \<^verbatim>\<open>@api_view(["POST"])\<close> around the function, which names no permission
  classes of its own and so gets the configured default.
\<close>

definition track_wallet_connection ::
  "settings \<Rightarrow> ('m db \<Rightarrow> connection_fields \<Rightarrow> string option) \<Rightarrow> ('m db \<Rightarrow> 'm \<Rightarrow> string + 'm)
     \<Rightarrow> timestamp \<Rightarrow> ('m db, unit, unit) view" where
  "track_wallet_connection cfg rejects update_metrics now =
     api_view cfg [''POST''] (DEFAULT_PERMISSION_CLASSES cfg)
       (track_wallet_connection_func rejects update_metrics now)"

subsection \<open>Reading the day count\<close>

text \<open>
  \<^verbatim>\<open>int(text)\<close> in base 10. The white space around the number is dropped: tab, line
  feed, vertical tab, form feed, carriage return and space, and of the code points from
  128 to 255 the next-line and the no-break space. One sign is allowed, and the digits
  may be separated by single underscores. A text with more than 4300 digits, the
  default cap of the interpreter, is refused. Characters are the code points below 256.
\<close>

definition is_space :: "char \<Rightarrow> bool" where
  "is_space c = (c \<in> set [CHR 0x09, CHR 0x0A, CHR 0x0B, CHR 0x0C, CHR 0x0D, CHR 0x20, CHR 0x85,
                           CHR 0xA0])"

definition strip :: "string \<Rightarrow> string" where
  "strip s = rev (dropWhile is_space (rev (dropWhile is_space s)))"

definition is_digit :: "char \<Rightarrow> bool" where
  "is_digit c = (48 \<le> (of_char c :: nat) \<and> (of_char c :: nat) \<le> 57)"

definition digit_value :: "char \<Rightarrow> nat" where
  "digit_value c = of_char c - 48"

fun digits_tail :: "nat \<Rightarrow> string \<Rightarrow> nat option" where
  "digits_tail acc [] = Some acc"
| "digits_tail acc [c] = (if is_digit c then Some (10 * acc + digit_value c) else None)"
| "digits_tail acc (c # d # cs) =
     (if is_digit c then digits_tail (10 * acc + digit_value c) (d # cs)
      else if c = CHR ''_'' \<and> is_digit d then digits_tail (10 * acc + digit_value d) cs
      else None)"

definition max_str_digits :: nat where
  "max_str_digits = 4300"

definition digits :: "string \<Rightarrow> nat option" where
  "digits s =
     (if max_str_digits < length (filter is_digit s) then None
      else (case s of [] \<Rightarrow> None
            | c # cs \<Rightarrow> if is_digit c then digits_tail (digit_value c) cs else None))"

definition int_of_text :: "string \<Rightarrow> int option" where
  "int_of_text s =
     (case strip s of
        [] \<Rightarrow> None
      | c # cs \<Rightarrow>
          if c = CHR ''-'' then map_option (\<lambda>n. - int n) (digits cs)
          else if c = CHR ''+'' then map_option int (digits cs)
          else map_option int (digits (c # cs)))"

text \<open>
  \<^verbatim>\<open>int(v)\<close> of a query value, which is text when the parameter is present and the
  integer default when it is absent.
\<close>

definition py_int :: "string + int \<Rightarrow> exn + int" where
  "py_int v =
     (case v of
        Inr n \<Rightarrow> Inr n
      | Inl s \<Rightarrow> (case int_of_text s of None \<Rightarrow> Inl (ValueError s) | Some n \<Rightarrow> Inr n))"

definition query_get :: "(string \<rightharpoonup> string) \<Rightarrow> string \<Rightarrow> int \<Rightarrow> string + int" where
  "query_get q k dflt = (case q k of None \<Rightarrow> Inr dflt | Some v \<Rightarrow> Inl v)"

subsection \<open>Dates\<close>

definition us_per_day :: int where
  "us_per_day = 86400000000"

text \<open>\<^verbatim>\<open>timedelta(days=d)\<close>, which refuses a magnitude above 999999999 days.\<close>

definition timedelta :: "int \<Rightarrow> exn + int" where
  "timedelta d = (if 999999999 < \<bar>d\<bar> then Inl OverflowError else Inr (d * us_per_day))"

text \<open>
  \<^verbatim>\<open>t - delta\<close> of a datetime, which must stay within the years 1 to 9999 (3652059
  days).
\<close>

definition datetime_sub :: "timestamp \<Rightarrow> int \<Rightarrow> exn + timestamp" where
  "datetime_sub t delta =
     (if 0 \<le> t - delta \<and> t - delta < 3652059 * us_per_day then Inr (t - delta)
      else Inl OverflowError)"

text \<open>The SQL function \<^verbatim>\<open>date(attempted_at)\<close>: the calendar day, as a day number.\<close>

definition date :: "timestamp \<Rightarrow> int" where
  "date t = t div us_per_day"

subsection \<open>Wallet trends\<close>

text \<open>
  The aggregate query of \<^verbatim>\<open>wallet_trends\<close>: the rows are grouped by day, each group
  counting its rows, its rows of status \<^verbatim>\<open>success\<close> and its rows of status
  \<^verbatim>\<open>failed\<close>; the groups are then ordered by day.
\<close>

record daily_row =
  day :: int
  total :: nat
  successful :: nat
  failed :: nat

definition count_into :: "wallet_connection \<Rightarrow> daily_row \<Rightarrow> daily_row" where
  "count_into c r =
     r\<lparr>total := total r + 1,
       successful := successful r + (if connection_status c = ''success'' then 1 else 0),
       failed := failed r + (if connection_status c = ''failed'' then 1 else 0)\<rparr>"

fun group_by_day :: "wallet_connection \<Rightarrow> daily_row list \<Rightarrow> daily_row list" where
  "group_by_day c [] =
     [count_into c \<lparr>day = date (attempted_at c), total = 0, successful = 0, failed = 0\<rparr>]"
| "group_by_day c (r # rs) =
     (if day r = date (attempted_at c) then count_into c r # rs else r # group_by_day c rs)"

definition annotate :: "wallet_connection list \<Rightarrow> daily_row list" where
  "annotate cs = fold group_by_day cs []"

definition daily_connections_query :: "'m db \<Rightarrow> timestamp \<Rightarrow> daily_row list" where
  "daily_connections_query s start_date =
     sort_key day (annotate (filter (\<lambda>c. start_date \<le> attempted_at c) (wallet_connections s)))"

text \<open>
  The breakdown in the words of the specification: one row for each calendar day on
  which a connection was attempted at or after the start date, in ascending order of
  the day, with the number of those attempts, of those with status \<^verbatim>\<open>success\<close> and of
  those with status \<^verbatim>\<open>failed\<close>.
\<close>

definition daily_breakdown :: "wallet_connection list \<Rightarrow> timestamp \<Rightarrow> daily_row list" where
  "daily_breakdown cs start_date =
     map (\<lambda>d. \<lparr>day = d,
               total = length [c \<leftarrow> cs. start_date \<le> attempted_at c \<and> date (attempted_at c) = d],
               successful =
                 length [c \<leftarrow> cs. start_date \<le> attempted_at c \<and> date (attempted_at c) = d
                                  \<and> connection_status c = ''success''],
               failed =
                 length [c \<leftarrow> cs. start_date \<le> attempted_at c \<and> date (attempted_at c) = d
                                  \<and> connection_status c = ''failed'']\<rparr>)
       (sort (remdups (map (\<lambda>c. date (attempted_at c)) [c \<leftarrow> cs. start_date \<le> attempted_at c])))"

text \<open>The counts of one day over a list of connections.\<close>

definition tally :: "wallet_connection list \<Rightarrow> int \<Rightarrow> daily_row" where
  "tally cs d =
     \<lparr>day = d,
      total = length [c \<leftarrow> cs. date (attempted_at c) = d],
      successful = length [c \<leftarrow> cs. date (attempted_at c) = d \<and> connection_status c = ''success''],
      failed = length [c \<leftarrow> cs. date (attempted_at c) = d \<and> connection_status c = ''failed'']\<rparr>"

record 'd wallet_trends_context =
  ctx_wallet_data :: 'd
  ctx_daily_connections :: "daily_row list"
  ctx_days :: int

text \<open>
  The aggregation utilities live in \<^verbatim>\<open>utils.py\<close>, which is not part of the sources;
  each is a parameter that reads the store and returns its summary or raises.
\<close>

definition wallet_trends_func ::
  "('m db \<Rightarrow> exn + 'd) \<Rightarrow> timestamp \<Rightarrow> ('m db, 'd, 'd wallet_trends_context) view" where
  "wallet_trends_func get_wallet_analytics now request s =
     (case get_wallet_analytics s of
        Inl e \<Rightarrow> (Inl e, s)
      | Inr wallet_data \<Rightarrow>
          (case py_int (query_get (GET request) ''days'' 30) of
             Inl e \<Rightarrow> (Inl e, s)
           | Inr days \<Rightarrow>
               (case timedelta days of
                  Inl e \<Rightarrow> (Inl e, s)
                | Inr delta \<Rightarrow>
                    (case datetime_sub now delta of
                       Inl e \<Rightarrow> (Inl e, s)
                     | Inr start_date \<Rightarrow>
                         (Inr (render ''analytics/wallet_trends.html''
                                 \<lparr>ctx_wallet_data = wallet_data,
                                  ctx_daily_connections = daily_connections_query s start_date,
                                  ctx_days = days\<rparr>), s)))))"

definition wallet_trends ::
  "settings \<Rightarrow> ('m db \<Rightarrow> exn + 'd) \<Rightarrow> timestamp \<Rightarrow> ('m db, 'd, 'd wallet_trends_context) view" where
  "wallet_trends cfg get_wallet_analytics now =
     jwt_staff_required cfg (wallet_trends_func get_wallet_analytics now)"

subsection \<open>The JSON endpoints\<close>

definition api_session_data_func :: "(int \<Rightarrow> 's \<Rightarrow> exn + 'd) \<Rightarrow> ('s, 'd, unit) view" where
  "api_session_data_func get_session_analytics request s =
     (case py_int (query_get (GET request) ''days'' 30) of
        Inl e \<Rightarrow> (Inl e, s)
      | Inr days \<Rightarrow>
          (case get_session_analytics days s of
             Inl e \<Rightarrow> (Inl e, s)
           | Inr d \<Rightarrow> (Inr (Response (Data d) 200), s)))"

definition api_session_data :: "settings \<Rightarrow> (int \<Rightarrow> 's \<Rightarrow> exn + 'd) \<Rightarrow> ('s, 'd, unit) view" where
  "api_session_data cfg get_session_analytics =
     api_view cfg [''GET''] [IsAuthenticated]
       (user_passes_test cfg is_staff_user (api_session_data_func get_session_analytics))"

definition api_wallet_data_func :: "('s \<Rightarrow> exn + 'd) \<Rightarrow> ('s, 'd, unit) view" where
  "api_wallet_data_func get_wallet_analytics request s =
     (case get_wallet_analytics s of
        Inl e \<Rightarrow> (Inl e, s)
      | Inr d \<Rightarrow> (Inr (Response (Data d) 200), s))"

definition api_wallet_data :: "settings \<Rightarrow> ('s \<Rightarrow> exn + 'd) \<Rightarrow> ('s, 'd, unit) view" where
  "api_wallet_data cfg get_wallet_analytics =
     api_view cfg [''GET''] [IsAuthenticated]
       (user_passes_test cfg is_staff_user (api_wallet_data_func get_wallet_analytics))"

definition api_user_segments_func :: "('s \<Rightarrow> exn + 'd) \<Rightarrow> ('s, 'd, unit) view" where
  "api_user_segments_func get_user_segmentation request s =
     (case get_user_segmentation s of
        Inl e \<Rightarrow> (Inl e, s)
      | Inr d \<Rightarrow> (Inr (Response (Data d) 200), s))"

definition api_user_segments :: "settings \<Rightarrow> ('s \<Rightarrow> exn + 'd) \<Rightarrow> ('s, 'd, unit) view" where
  "api_user_segments cfg get_user_segmentation =
     api_view cfg [''GET''] [IsAuthenticated]
       (user_passes_test cfg is_staff_user (api_user_segments_func get_user_segmentation))"

subsection \<open>Retention analysis\<close>

record cohort_entry =
  entry_period :: nat
  entry_retention_rate :: rat
  entry_retained_users :: nat
  entry_total_users :: nat

record retention_context =
  ctx_period_type :: string
  ctx_cohort_data :: "(string \<times> cohort_entry list) list"

text \<open>The loop body: the entry is appended under its date key, a new key going last.\<close>

fun append_entry ::
  "string \<Rightarrow> cohort_entry \<Rightarrow> (string \<times> cohort_entry list) list
     \<Rightarrow> (string \<times> cohort_entry list) list" where
  "append_entry k e [] = [(k, [e])]"
| "append_entry k e ((k', es) # kvs) =
     (if k' = k then (k', es @ [e]) # kvs else (k', es) # append_entry k e kvs)"

definition group_cohorts ::
  "(int \<Rightarrow> string) \<Rightarrow> retention_cohort list \<Rightarrow> (string \<times> cohort_entry list) list" where
  "group_cohorts strftime cohorts =
     fold (\<lambda>cohort cohort_data.
             append_entry (strftime (cohort_date cohort))
               \<lparr>entry_period = period_number cohort,
                entry_retention_rate = retention_rate cohort,
                entry_retained_users = retained_users cohort,
                entry_total_users = total_users cohort\<rparr> cohort_data)
          cohorts []"

text \<open>
  \<^verbatim>\<open>order_by("-cohort_date", "period_number")\<close>: by period number within a cohort date,
  the later cohort dates first.
\<close>

definition order_cohorts :: "retention_cohort list \<Rightarrow> retention_cohort list" where
  "order_cohorts cs = sort_key (\<lambda>c. - cohort_date c) (sort_key period_number cs)"

text \<open>
  The view. The cohort builder \<open>calc\<close> (\<^verbatim>\<open>calculate_retention_cohorts\<close> of
  \<^verbatim>\<open>utils.py\<close>) and the date format are parameters.
\<close>

definition retention_analysis_func ::
  "(string \<Rightarrow> 'm db \<Rightarrow> (exn + unit) \<times> 'm db) \<Rightarrow> (int \<Rightarrow> string)
     \<Rightarrow> ('m db, unit, retention_context) view" where
  "retention_analysis_func calc strftime request s =
     (case calc (dict_get (GET request) ''period'' ''weekly'') s of
        (Inl e, s1) \<Rightarrow> (Inl e, s1)
      | (Inr _, s1) \<Rightarrow>
          (Inr (render ''analytics/retention.html''
                  \<lparr>ctx_period_type = dict_get (GET request) ''period'' ''weekly'',
                   ctx_cohort_data =
                     group_cohorts strftime
                       (order_cohorts
                          (filter (\<lambda>c. period_type c = dict_get (GET request) ''period'' ''weekly'')
                             (retention_cohorts s1)))\<rparr>), s1))"

definition retention_analysis ::
  "settings \<Rightarrow> (string \<Rightarrow> 'm db \<Rightarrow> (exn + unit) \<times> 'm db) \<Rightarrow> (int \<Rightarrow> string)
     \<Rightarrow> ('m db, unit, retention_context) view" where
  "retention_analysis cfg calc strftime =
     jwt_staff_required cfg (retention_analysis_func calc strftime)"

subsection \<open>The cohort builder\<close>

text \<open>
  \<^verbatim>\<open>calculate_retention_cohorts\<close> is defined in \<^verbatim>\<open>utils.py\<close>, which is not part of
  the sources. The definitions of this subsection follow section 4.1 of the
  specification instead. A period is named by its index, consecutive periods having
  consecutive indices; \<open>period_of\<close>, the index of the period of the given type that
  contains a time, is a parameter. Rates are exact rationals.
\<close>

record user_session =
  session_user :: nat
  login_at :: timestamp

text \<open>
  Modelled from the spec: the period containing a user's first recorded session
  (step 1 of the algorithm; \<^verbatim>\<open>utils.py\<close> is missing).
\<close>

definition first_period :: "(timestamp \<Rightarrow> int) \<Rightarrow> user_session list \<Rightarrow> nat \<Rightarrow> int" where
  "first_period period_of sessions u =
     min_list (map (\<lambda>x. period_of (login_at x)) (filter (\<lambda>x. session_user x = u) sessions))"

text \<open>
  Modelled from the spec: the cohort of a period, the users whose first session falls
  in it (step 1; \<^verbatim>\<open>utils.py\<close> is missing).
\<close>

definition cohort_members :: "(timestamp \<Rightarrow> int) \<Rightarrow> user_session list \<Rightarrow> int \<Rightarrow> nat list" where
  "cohort_members period_of sessions c =
     filter (\<lambda>u. first_period period_of sessions u = c) (remdups (map session_user sessions))"

text \<open>
  Modelled from the spec: a user is retained in a period when at least one of the
  user's sessions falls inside it (step 2; \<^verbatim>\<open>utils.py\<close> is missing).
\<close>

definition active_in :: "(timestamp \<Rightarrow> int) \<Rightarrow> user_session list \<Rightarrow> int \<Rightarrow> nat \<Rightarrow> bool" where
  "active_in period_of sessions p u =
     list_ex (\<lambda>x. session_user x = u \<and> period_of (login_at x) = p) sessions"

text \<open>
  Modelled from the spec: the row of a cohort and a period offset: the size of the
  cohort, the number of its members retained in the later period, and their ratio,
  which is 0 for an empty cohort (steps 2 and 3; \<^verbatim>\<open>utils.py\<close> is missing).
\<close>

definition cohort_row ::
  "(timestamp \<Rightarrow> int) \<Rightarrow> string \<Rightarrow> user_session list \<Rightarrow> int \<Rightarrow> nat \<Rightarrow> retention_cohort" where
  "cohort_row period_of ptype sessions c n =
     \<lparr>cohort_date = c, period_type = ptype, period_number = n,
      total_users = length (cohort_members period_of sessions c),
      retained_users =
        length (filter (active_in period_of sessions (c + int n))
                  (cohort_members period_of sessions c)),
      retention_rate =
        (if length (cohort_members period_of sessions c) = 0 then 0
         else of_nat (length (filter (active_in period_of sessions (c + int n))
                                (cohort_members period_of sessions c)))
              / of_nat (length (cohort_members period_of sessions c)))\<rparr>"

text \<open>
  Modelled from the spec: the rows of a run: every cohort from the earliest session's
  period to the present one, empty cohorts included, each with the period offsets 0,
  1, 2, ... up to the present (step 2 and the edge cases; \<^verbatim>\<open>utils.py\<close> is missing).
\<close>

definition cohort_rows ::
  "(timestamp \<Rightarrow> int) \<Rightarrow> string \<Rightarrow> timestamp \<Rightarrow> user_session list \<Rightarrow> retention_cohort list" where
  "cohort_rows period_of ptype now sessions =
     (case sessions of
        [] \<Rightarrow> []
      | _ # _ \<Rightarrow>
          concat (map (\<lambda>c. map (cohort_row period_of ptype sessions c)
                              [0 ..< nat (period_of now - c + 1)])
                    [min_list (map (\<lambda>x. period_of (login_at x)) sessions) .. period_of now]))"

text \<open>
  Modelled from the spec: write-or-replace of a row under its key (cohort date, period
  type, period number) (step 4; \<^verbatim>\<open>utils.py\<close> is missing).
\<close>

fun upsert :: "retention_cohort \<Rightarrow> retention_cohort list \<Rightarrow> retention_cohort list" where
  "upsert r [] = [r]"
| "upsert r (x # xs) =
     (if cohort_date x = cohort_date r \<and> period_type x = period_type r
         \<and> period_number x = period_number r
      then r # xs else x # upsert r xs)"

text \<open>
  Modelled from the spec: the cohort builder: the rows of the run for the given period
  type are written into the store (section 4.1; \<^verbatim>\<open>utils.py\<close> is missing).
\<close>

definition calculate_retention_cohorts ::
  "(string \<Rightarrow> timestamp \<Rightarrow> int) \<Rightarrow> user_session list \<Rightarrow> timestamp \<Rightarrow> string \<Rightarrow> 'm db
     \<Rightarrow> (exn + unit) \<times> 'm db" where
  "calculate_retention_cohorts period_of sessions now ptype s =
     (Inr (), s\<lparr>retention_cohorts :=
                  fold upsert (cohort_rows (period_of ptype) ptype now sessions)
                    (retention_cohorts s)\<rparr>)"

section \<open>Example inputs\<close>

definition jwt_settings :: settings where
  "jwt_settings =
     \<lparr>authenticators = [Some ''Bearer realm=api''],
      DEFAULT_PERMISSION_CLASSES = [AllowAny],
      LOGIN_URL = ''/accounts/login/''\<rparr>"

definition empty_db :: "nat db" where
  "empty_db = \<lparr>wallet_connections = [], behavior_metrics = Map.empty, retention_cohorts = []\<rparr>"

definition anonymous_post :: request where
  "anonymous_post =
     \<lparr>http_method = ''POST'', user = AnonymousUser, GET = Map.empty,
      data = [''provider'' \<mapsto> ''metamask'', ''status'' \<mapsto> ''success''],
      META = [''REMOTE_ADDR'' \<mapsto> ''203.0.113.9'']\<rparr>"

definition alice :: auth_user where
  "alice = \<lparr>user_id = 7, is_staff = False\<rparr>"

definition admin :: auth_user where
  "admin = \<lparr>user_id = 1, is_staff = True\<rparr>"

definition metamask_post :: request where
  "metamask_post =
     \<lparr>http_method = ''POST'', user = User alice, GET = Map.empty,
      data = [''provider'' \<mapsto> ''metamask'', ''status'' \<mapsto> ''success''],
      META = [''REMOTE_ADDR'' \<mapsto> ''203.0.113.9'', ''HTTP_USER_AGENT'' \<mapsto> ''curl/8'']\<rparr>"

definition bare_post :: request where
  "bare_post =
     \<lparr>http_method = ''POST'', user = User alice, GET = Map.empty, data = Map.empty,
      META = [''REMOTE_ADDR'' \<mapsto> ''203.0.113.9'', ''HTTP_USER_AGENT'' \<mapsto> ''curl/8'']\<rparr>"

definition db_with_metrics :: "nat db" where
  "db_with_metrics =
     \<lparr>wallet_connections = [], behavior_metrics = [7 \<mapsto> 0], retention_cohorts = []\<rparr>"

text \<open>A store that accepts every row, one that refuses every row, and two update routines.\<close>

definition accepts_all :: "nat db \<Rightarrow> connection_fields \<Rightarrow> string option" where
  "accepts_all s kw = None"

definition rejects_all :: "nat db \<Rightarrow> connection_fields \<Rightarrow> string option" where
  "rejects_all s kw = Some ''value too long for type character varying(50)''"

definition count_update :: "nat db \<Rightarrow> nat \<Rightarrow> string + nat" where
  "count_update s m = Inr (Suc m)"

definition failing_update :: "nat db \<Rightarrow> nat \<Rightarrow> string + nat" where
  "failing_update s m = Inl ''database is locked''"

definition noon :: timestamp where
  "noon = 739000 * us_per_day + 43200000000"

definition alice_get :: request where
  "alice_get =
     \<lparr>http_method = ''GET'', user = User alice, GET = Map.empty, data = Map.empty,
      META = Map.empty\<rparr>"

definition anonymous_get :: request where
  "anonymous_get =
     \<lparr>http_method = ''GET'', user = AnonymousUser, GET = Map.empty, data = Map.empty,
      META = Map.empty\<rparr>"

definition admin_get :: "(string \<rightharpoonup> string) \<Rightarrow> request" where
  "admin_get q =
     \<lparr>http_method = ''GET'', user = User admin, GET = q, data = Map.empty, META = Map.empty\<rparr>"

definition no_summary :: "nat db \<Rightarrow> exn + unit" where
  "no_summary s = Inr ()"

definition no_session_summary :: "int \<Rightarrow> nat db \<Rightarrow> exn + unit" where
  "no_session_summary days s = Inr ()"

text \<open>A builder that raises its argument, to observe what it is called with.\<close>

definition probe_builder :: "string \<Rightarrow> 'm db \<Rightarrow> (exn + unit) \<times> 'm db" where
  "probe_builder ptype s = (Inl (Raised ptype), s)"

text \<open>A date format for the examples: the day number in decimal.\<close>

fun decimal :: "nat \<Rightarrow> string" where
  "decimal n = (if n < 10 then [char_of (48 + n)] else decimal (n div 10) @ [char_of (48 + n mod 10)])"

definition day_number :: "int \<Rightarrow> string" where
  "day_number d = decimal (nat d)"

definition yearly_get :: request where
  "yearly_get = admin_get [''period'' \<mapsto> ''yearly'']"

definition abc_days_get :: request where
  "abc_days_get = admin_get [''days'' \<mapsto> ''abc'']"

definition attempt :: "timestamp \<Rightarrow> string \<Rightarrow> wallet_connection" where
  "attempt t st =
     \<lparr>wc_user = User alice, wallet_provider = ''metamask'', wallet_address = ''0xabc'',
      connection_status = st, error_message = [], ip_address = ''203.0.113.9'',
      user_agent = ''curl/8'', attempted_at = t\<rparr>"

definition trend_db :: "nat db" where
  "trend_db =
     \<lparr>wallet_connections =
        [attempt (739000 * us_per_day + 100) ''success'',
         attempt (738990 * us_per_day) ''success'',
         attempt (738999 * us_per_day + 5) ''success'',
         attempt (739000 * us_per_day + 7) ''failed'',
         attempt (739000 * us_per_day + 9) ''pending''],
      behavior_metrics = Map.empty, retention_cohorts = []\<rparr>"

definition two_days_get :: request where
  "two_days_get = admin_get [''days'' \<mapsto> ''2'']"

text \<open>
  The scenario of the specification: ten users with a first session in week 1, four of
  them with a session in week 2.
\<close>

definition week_of :: "string \<Rightarrow> timestamp \<Rightarrow> int" where
  "week_of ptype t = t div (7 * us_per_day)"

definition week_sessions :: "user_session list" where
  "week_sessions =
     map (\<lambda>u. \<lparr>session_user = u, login_at = 7 * us_per_day + int u\<rparr>) [1 ..< 11]
     @ map (\<lambda>u. \<lparr>session_user = u, login_at = 14 * us_per_day + int u\<rparr>) [1 ..< 5]"

definition week_two_row :: retention_cohort where
  "week_two_row =
     \<lparr>cohort_date = 1, period_type = ''weekly'', period_number = 1, total_users = 10,
      retained_users = 4, retention_rate = 2 / 5\<rparr>"

text \<open>
  Settings whose default permission admits authenticated requests only, an expired
  token, and a store that is out of reach.
\<close>

definition strict_settings :: settings where
  "strict_settings =
     \<lparr>authenticators = [Some ''Bearer realm=api''],
      DEFAULT_PERMISSION_CLASSES = [IsAuthenticated],
      LOGIN_URL = ''/accounts/login/''\<rparr>"

definition expired_token :: credential where
  "expired_token = InvalidCredential ''Token is invalid or expired''"

definition store_down :: "nat db \<Rightarrow> connection_fields \<Rightarrow> string option" where
  "store_down s kw = Some ''could not connect to server''"

section \<open>Connection tracking: properties\<close>

lemma track_func_anonymous:
  "user request = AnonymousUser \<Longrightarrow>
   track_wallet_connection_func rejects update_metrics now request s =
     (Inr (Response (Dict [(''status'', ''error''), (''message'', ''User not authenticated'')])
             401), s)"
  by (simp add: track_wallet_connection_func_def track_wallet_connection_try_def)

lemma anonymous_permissions:
  "user request = AnonymousUser \<Longrightarrow>
   list_all (\<lambda>p. has_permission p request) perms = (IsAuthenticated \<notin> set perms)"
proof (induction perms)
  case Nil
  then show ?case by simp
next
  case (Cons p perms)
  then show ?case by (cases p) auto
qed

lemma track_endpoint_anonymous:
  assumes "user request = AnonymousUser"
    and "http_method request = ''POST''"
    and "IsAuthenticated \<notin> set (DEFAULT_PERMISSION_CLASSES cfg)"
  shows "track_wallet_connection cfg rejects update_metrics now request s =
           (Inr (Response (Dict [(''status'', ''error''),
                                 (''message'', ''User not authenticated'')]) 401), s)"
  using assms
  by (simp add: track_wallet_connection_def api_view_def anonymous_permissions
      track_func_anonymous)

lemma track_endpoint_anonymous_refused:
  assumes "user request = AnonymousUser"
    and "IsAuthenticated \<in> set (DEFAULT_PERMISSION_CLASSES cfg)"
  shows "track_wallet_connection cfg rejects update_metrics now request s =
           (Inr (permission_denied cfg request), s)"
  using assms
  by (simp add: track_wallet_connection_def api_view_def anonymous_permissions)

lemma permission_denied_anonymous_status:
  "user request = AnonymousUser \<Longrightarrow>
   status_code (permission_denied cfg request :: ('d, 'c) response) \<in> {401, 403}"
  by (simp add: permission_denied_def split: list.splits option.splits)

lemma track_endpoint_anonymous_outcome:
  assumes "user request = AnonymousUser"
    and "http_method request = ''POST''"
  shows "snd (track_wallet_connection cfg rejects update_metrics now request s) = s
       \<and> (\<exists>r. fst (track_wallet_connection cfg rejects update_metrics now request s) = Inr r
              \<and> status_code r \<in> {401, 403})"
proof (cases "IsAuthenticated \<in> set (DEFAULT_PERMISSION_CLASSES cfg)")
  case True
  with assms(1) show ?thesis
    using permission_denied_anonymous_status [of request cfg]
    by (simp add: track_endpoint_anonymous_refused)
next
  case False
  with assms show ?thesis
    by (simp add: track_endpoint_anonymous)
qed

text \<open>
  C1, as amended. An unauthenticated POST to the connection-tracking endpoint, one that
  presents no credential or an invalid one, leaves the store as it was, whatever its
  payload: no connection record is persisted, and the answer has status 401 or 403.
  When no credential is presented and the default permission classes admit anonymous
  requests, as the framework's own default does, the answer is that of the view:
  status 401 and the body \<^verbatim>\<open>{"status": "error", "message": "User not authenticated"}\<close>.
\<close>

theorem track_wallet_connection_unauthenticated:
  assumes "http_method request = ''POST''"
    and "cred = NoCredential \<or> cred = InvalidCredential detail"
  shows "snd (perform_authentication cfg cred
                (track_wallet_connection cfg rejects update_metrics now) request s) = s
       \<and> (\<exists>r. fst (perform_authentication cfg cred
                      (track_wallet_connection cfg rejects update_metrics now) request s) = Inr r
              \<and> status_code r \<in> {401, 403})
       \<and> (cred = NoCredential \<longrightarrow> IsAuthenticated \<notin> set (DEFAULT_PERMISSION_CLASSES cfg) \<longrightarrow>
            perform_authentication cfg cred
              (track_wallet_connection cfg rejects update_metrics now) request s =
              (Inr (Response (Dict [(''status'', ''error''),
                                    (''message'', ''User not authenticated'')]) 401), s))"
proof -
  let ?anon = "request\<lparr>user := AnonymousUser\<rparr>"
  have anon: "user ?anon = AnonymousUser" "http_method ?anon = ''POST''"
    using assms(1) by simp_all
  note outcome = track_endpoint_anonymous_outcome [OF anon, of cfg rejects update_metrics now s]
  have view: "track_wallet_connection cfg rejects update_metrics now ?anon s =
                (Inr (Response (Dict [(''status'', ''error''),
                                      (''message'', ''User not authenticated'')]) 401), s)"
    if "IsAuthenticated \<notin> set (DEFAULT_PERMISSION_CLASSES cfg)"
    using that by (rule track_endpoint_anonymous [OF anon])
  have anonymous: ?thesis
    if "perform_authentication cfg cred
          (track_wallet_connection cfg rejects update_metrics now) request s
        = track_wallet_connection cfg rejects update_metrics now ?anon s"
    using that outcome view by auto
  show ?thesis
  proof (cases "authenticators cfg")
    case Nil
    then show ?thesis
      by (intro anonymous) (simp add: perform_authentication_def)
  next
    case (Cons a rest)
    from assms(2) show ?thesis
    proof
      assume "cred = NoCredential"
      with Cons show ?thesis
        by (intro anonymous) (simp add: perform_authentication_def)
    next
      assume "cred = InvalidCredential detail"
      with Cons show ?thesis
        by (simp add: perform_authentication_def split: option.splits)
    qed
  qed
qed

theorem track_wallet_connection_unauthenticated_witness:
  "http_method anonymous_post = ''POST''
   \<and> IsAuthenticated \<notin> set (DEFAULT_PERMISSION_CLASSES jwt_settings)
   \<and> perform_authentication jwt_settings NoCredential
       (track_wallet_connection jwt_settings accepts_all count_update noon) anonymous_post
       empty_db =
       (Inr (Response (Dict [(''status'', ''error''),
                             (''message'', ''User not authenticated'')]) 401), empty_db)"
proof -
  have a: "http_method anonymous_post = ''POST''"
    by (simp add: anonymous_post_def)
  have b: "NoCredential = NoCredential \<or> NoCredential = InvalidCredential []"
    by simp
  have c: "IsAuthenticated \<notin> set (DEFAULT_PERMISSION_CLASSES jwt_settings)"
    by (simp add: jwt_settings_def)
  show ?thesis
    using a c
      track_wallet_connection_unauthenticated
        [where cfg = jwt_settings and rejects = accepts_all and update_metrics = count_update
           and now = noon and s = empty_db, OF a b]
    by simp
qed

text \<open>
  C1 as stated fails for two unauthenticated POSTs: one with an expired token, which
  the authenticator refuses before the view runs, and one without a credential under a
  default permission that admits authenticated requests only. Both are answered with
  the framework's own body.
\<close>

theorem track_wallet_connection_unauthenticated_counterexample:
  "perform_authentication jwt_settings expired_token
     (track_wallet_connection jwt_settings accepts_all count_update noon) anonymous_post empty_db =
     (Inr (Response (Dict [(''detail'', ''Token is invalid or expired'')]) 401), empty_db)
   \<and> perform_authentication strict_settings NoCredential
       (track_wallet_connection strict_settings accepts_all count_update noon) anonymous_post
       empty_db =
       (Inr (Response (Dict [(''detail'', ''Authentication credentials were not provided.'')])
               401), empty_db)"
  by (simp add: perform_authentication_def jwt_settings_def strict_settings_def
      expired_token_def track_wallet_connection_def api_view_def permission_denied_def
      anonymous_post_def)

lemma authenticated_permissions:
  "user request = User u \<Longrightarrow> list_all (\<lambda>p. has_permission p request) perms"
proof (induction perms)
  case Nil
  then show ?case by simp
next
  case (Cons p perms)
  then show ?case by (cases p) simp_all
qed

lemma track_endpoint_post:
  "user request = User u \<Longrightarrow> http_method request = ''POST'' \<Longrightarrow>
   track_wallet_connection cfg rejects update_metrics now request s =
     track_wallet_connection_func rejects update_metrics now request s"
  by (simp add: track_wallet_connection_def api_view_def authenticated_permissions)

lemma track_func_rejected:
  "user request = User u \<Longrightarrow> rejects s (create_kwargs request) = Some e \<Longrightarrow>
   track_wallet_connection_func rejects update_metrics now request s =
     (Inr (Response (Dict [(''status'', ''error''), (''message'', e)]) 400), s)"
  by (simp add: track_wallet_connection_func_def track_wallet_connection_try_def
      objects_create_def)

lemma track_func_no_metrics:
  "user request = User u \<Longrightarrow> rejects s (create_kwargs request) = None \<Longrightarrow>
   behavior_metrics s (user_id u) = None \<Longrightarrow>
   track_wallet_connection_func rejects update_metrics now request s =
     (Inr (Response (Dict [(''status'', ''success'')]) 200),
      s\<lparr>wallet_connections := wallet_connections s @ [stored (create_kwargs request) now]\<rparr>)"
  by (simp add: track_wallet_connection_func_def track_wallet_connection_try_def
      objects_create_def)

lemma track_func_update_raises:
  "user request = User u \<Longrightarrow> rejects s (create_kwargs request) = None \<Longrightarrow>
   behavior_metrics s (user_id u) = Some m \<Longrightarrow>
   update_metrics
     (s\<lparr>wallet_connections := wallet_connections s @ [stored (create_kwargs request) now]\<rparr>) m
     = Inl e \<Longrightarrow>
   track_wallet_connection_func rejects update_metrics now request s =
     (Inr (Response (Dict [(''status'', ''error''), (''message'', e)]) 400),
      s\<lparr>wallet_connections := wallet_connections s @ [stored (create_kwargs request) now]\<rparr>)"
  by (simp add: track_wallet_connection_func_def track_wallet_connection_try_def
      objects_create_def)

lemma track_func_updated:
  "user request = User u \<Longrightarrow> rejects s (create_kwargs request) = None \<Longrightarrow>
   behavior_metrics s (user_id u) = Some m \<Longrightarrow>
   update_metrics
     (s\<lparr>wallet_connections := wallet_connections s @ [stored (create_kwargs request) now]\<rparr>) m
     = Inr m' \<Longrightarrow>
   track_wallet_connection_func rejects update_metrics now request s =
     (Inr (Response (Dict [(''status'', ''success'')]) 200),
      s\<lparr>wallet_connections := wallet_connections s @ [stored (create_kwargs request) now],
        behavior_metrics := (behavior_metrics s)(user_id u \<mapsto> m')\<rparr>)"
  by (simp add: track_wallet_connection_func_def track_wallet_connection_try_def
      objects_create_def)

lemma track_func_returns:
  "\<exists>r. fst (track_wallet_connection_func rejects update_metrics now request s) = Inr r"
  by (simp add: track_wallet_connection_func_def split: prod.splits sum.splits)

text \<open>No exception leaves the endpoint, whatever the request and the store.\<close>

lemma track_wallet_connection_returns:
  "\<exists>r. fst (track_wallet_connection cfg rejects update_metrics now request s) = Inr r"
  using track_func_returns [of rejects update_metrics now request s]
  by (simp add: track_wallet_connection_def api_view_def)

text \<open>
  C4. When the persistence step or the metrics update raises, the endpoint returns:
  the exception is caught and answered with status 400 and the body
  \<^verbatim>\<open>{"status": "error", "message": <exception text>}\<close>. The persistence step is
  reached by an authenticated POST; the metrics update is reached once the row is
  stored and the user has a metrics row.
\<close>

theorem track_wallet_connection_exception_caught:
  assumes "user request = User u"
    and "http_method request = ''POST''"
    and "rejects s (create_kwargs request) = Some e
         \<or> (rejects s (create_kwargs request) = None
            \<and> (\<exists>m. behavior_metrics s (user_id u) = Some m
                   \<and> update_metrics
                        (s\<lparr>wallet_connections :=
                             wallet_connections s @ [stored (create_kwargs request) now]\<rparr>) m
                       = Inl e))"
  shows "fst (track_wallet_connection cfg rejects update_metrics now request s) =
           Inr (Response (Dict [(''status'', ''error''), (''message'', e)]) 400)"
proof -
  from assms(3) show ?thesis
  proof
    assume "rejects s (create_kwargs request) = Some e"
    with assms(1,2) show ?thesis
      by (simp add: track_endpoint_post track_func_rejected)
  next
    assume "rejects s (create_kwargs request) = None
            \<and> (\<exists>m. behavior_metrics s (user_id u) = Some m
                   \<and> update_metrics
                        (s\<lparr>wallet_connections :=
                             wallet_connections s @ [stored (create_kwargs request) now]\<rparr>) m
                       = Inl e)"
    then obtain m where "rejects s (create_kwargs request) = None"
      and "behavior_metrics s (user_id u) = Some m"
      and "update_metrics
             (s\<lparr>wallet_connections :=
                  wallet_connections s @ [stored (create_kwargs request) now]\<rparr>) m = Inl e"
      by blast
    with assms(1,2) show ?thesis
      by (simp add: track_endpoint_post track_func_update_raises)
  qed
qed

theorem track_wallet_connection_exception_caught_witness:
  "fst (track_wallet_connection jwt_settings rejects_all count_update noon metamask_post
          db_with_metrics)
     = Inr (Response (Dict [(''status'', ''error''),
                            (''message'', ''value too long for type character varying(50)'')]) 400)
   \<and> fst (track_wallet_connection jwt_settings accepts_all failing_update noon metamask_post
            db_with_metrics)
     = Inr (Response (Dict [(''status'', ''error''), (''message'', ''database is locked'')]) 400)"
proof -
  have a: "user metamask_post = User alice"
    by (simp add: metamask_post_def)
  have b: "http_method metamask_post = ''POST''"
    by (simp add: metamask_post_def)
  have c: "rejects_all db_with_metrics (create_kwargs metamask_post)
             = Some ''value too long for type character varying(50)''"
    by (simp add: rejects_all_def)
  have d: "accepts_all db_with_metrics (create_kwargs metamask_post) = None
           \<and> (\<exists>m. behavior_metrics db_with_metrics (user_id alice) = Some m
                  \<and> failing_update
                       (db_with_metrics\<lparr>wallet_connections :=
                          wallet_connections db_with_metrics
                            @ [stored (create_kwargs metamask_post) noon]\<rparr>) m
                      = Inl ''database is locked'')"
    by (simp add: accepts_all_def failing_update_def db_with_metrics_def alice_def)
  show ?thesis
    using track_wallet_connection_exception_caught
        [where rejects = rejects_all and s = db_with_metrics and update_metrics = count_update
           and now = noon and cfg = jwt_settings, OF a b disjI1, OF c]
      track_wallet_connection_exception_caught
        [where rejects = accepts_all and s = db_with_metrics and update_metrics = failing_update
           and now = noon and cfg = jwt_settings, OF a b disjI2, OF d]
    by simp
qed

text \<open>
  C3, as amended. For an authenticated POST with provider \<^verbatim>\<open>metamask\<close> and status
  \<^verbatim>\<open>success\<close> that the store accepts, exactly one connection record is added, carrying
  the user and those two values. The user's behaviour metrics are updated by one call
  of the update routine when the user has a metrics row (the new value is stored when
  the routine returns) and are left as they are when the user has none.
\<close>

theorem track_wallet_connection_metamask:
  assumes "user request = User u"
    and "http_method request = ''POST''"
    and "data request ''provider'' = Some ''metamask''"
    and "data request ''status'' = Some ''success''"
    and "rejects s (create_kwargs request) = None"
  shows "\<exists>row.
           wallet_connections (snd (track_wallet_connection cfg rejects update_metrics now request s))
             = wallet_connections s @ [row]
           \<and> wc_user row = User u
           \<and> wallet_provider row = ''metamask''
           \<and> connection_status row = ''success''
           \<and> behavior_metrics (snd (track_wallet_connection cfg rejects update_metrics now request s))
             = (case behavior_metrics s (user_id u) of
                  None \<Rightarrow> behavior_metrics s
                | Some m \<Rightarrow>
                    (case update_metrics (s\<lparr>wallet_connections := wallet_connections s @ [row]\<rparr>) m of
                       Inl e \<Rightarrow> behavior_metrics s
                     | Inr m' \<Rightarrow> (behavior_metrics s)(user_id u \<mapsto> m')))"
proof (intro exI [of _ "stored (create_kwargs request) now"])
  let ?s1 = "s\<lparr>wallet_connections := wallet_connections s @ [stored (create_kwargs request) now]\<rparr>"
  have fields: "wc_user (stored (create_kwargs request) now) = User u"
    "wallet_provider (stored (create_kwargs request) now) = ''metamask''"
    "connection_status (stored (create_kwargs request) now) = ''success''"
    using assms(1,3,4) by (simp_all add: stored_def create_kwargs_def dict_get_def)
  show "wallet_connections (snd (track_wallet_connection cfg rejects update_metrics now request s))
          = wallet_connections s @ [stored (create_kwargs request) now]
        \<and> wc_user (stored (create_kwargs request) now) = User u
        \<and> wallet_provider (stored (create_kwargs request) now) = ''metamask''
        \<and> connection_status (stored (create_kwargs request) now) = ''success''
        \<and> behavior_metrics (snd (track_wallet_connection cfg rejects update_metrics now request s))
          = (case behavior_metrics s (user_id u) of
               None \<Rightarrow> behavior_metrics s
             | Some m \<Rightarrow>
                 (case update_metrics ?s1 m of
                    Inl e \<Rightarrow> behavior_metrics s
                  | Inr m' \<Rightarrow> (behavior_metrics s)(user_id u \<mapsto> m')))"
  proof (cases "behavior_metrics s (user_id u)")
    case None
    with assms(1,2,5) fields show ?thesis
      by (simp add: track_endpoint_post track_func_no_metrics)
  next
    case (Some m)
    show ?thesis
    proof (cases "update_metrics ?s1 m")
      case (Inl e)
      with Some assms(1,2,5) fields show ?thesis
        by (simp add: track_endpoint_post track_func_update_raises)
    next
      case (Inr m')
      with Some assms(1,2,5) fields show ?thesis
        by (simp add: track_endpoint_post track_func_updated)
    qed
  qed
qed

theorem track_wallet_connection_metamask_witness:
  "rejects_all db_with_metrics (create_kwargs metamask_post) \<noteq> None
   \<and> accepts_all db_with_metrics (create_kwargs metamask_post) = None
   \<and> (\<exists>row.
         wallet_connections
           (snd (track_wallet_connection jwt_settings accepts_all count_update noon metamask_post
                   db_with_metrics))
           = [row]
         \<and> wallet_provider row = ''metamask'' \<and> connection_status row = ''success''
         \<and> behavior_metrics
             (snd (track_wallet_connection jwt_settings accepts_all count_update noon metamask_post
                     db_with_metrics)) 7 = Some 1)"
proof -
  have a: "user metamask_post = User alice"
    by (simp add: metamask_post_def)
  have b: "http_method metamask_post = ''POST''"
    by (simp add: metamask_post_def)
  have c: "data metamask_post ''provider'' = Some ''metamask''"
    by (simp add: metamask_post_def)
  have d: "data metamask_post ''status'' = Some ''success''"
    by (simp add: metamask_post_def)
  have e: "accepts_all db_with_metrics (create_kwargs metamask_post) = None"
    by (simp add: accepts_all_def)
  have f: "rejects_all db_with_metrics (create_kwargs metamask_post) \<noteq> None"
    by (simp add: rejects_all_def)
  from track_wallet_connection_metamask
    [where rejects = accepts_all and s = db_with_metrics and update_metrics = count_update
       and now = noon and cfg = jwt_settings, OF a b c d e]
  obtain row where
    "wallet_connections
       (snd (track_wallet_connection jwt_settings accepts_all count_update noon metamask_post
               db_with_metrics))
       = wallet_connections db_with_metrics @ [row]"
    "wallet_provider row = ''metamask''" "connection_status row = ''success''"
    "behavior_metrics
       (snd (track_wallet_connection jwt_settings accepts_all count_update noon metamask_post
               db_with_metrics))
       = (case behavior_metrics db_with_metrics (user_id alice) of
            None \<Rightarrow> behavior_metrics db_with_metrics
          | Some m \<Rightarrow>
              (case count_update
                      (db_with_metrics\<lparr>wallet_connections :=
                         wallet_connections db_with_metrics @ [row]\<rparr>) m of
                 Inl e \<Rightarrow> behavior_metrics db_with_metrics
               | Inr m' \<Rightarrow> (behavior_metrics db_with_metrics)(user_id alice \<mapsto> m')))"
    by blast
  then have "\<exists>row.
         wallet_connections
           (snd (track_wallet_connection jwt_settings accepts_all count_update noon metamask_post
                   db_with_metrics))
           = [row]
         \<and> wallet_provider row = ''metamask'' \<and> connection_status row = ''success''
         \<and> behavior_metrics
             (snd (track_wallet_connection jwt_settings accepts_all count_update noon metamask_post
                     db_with_metrics)) 7 = Some 1"
    by (simp add: db_with_metrics_def alice_def count_update_def)
  with e f show ?thesis by blast
qed

text \<open>
  C3 as stated fails for a user without a metrics row: the request succeeds and the
  record is stored, and no behaviour metrics are updated.
\<close>

theorem track_wallet_connection_metamask_counterexample:
  "user metamask_post = User alice
   \<and> data metamask_post ''provider'' = Some ''metamask''
   \<and> data metamask_post ''status'' = Some ''success''
   \<and> track_wallet_connection jwt_settings accepts_all count_update noon metamask_post empty_db
     = (Inr (Response (Dict [(''status'', ''success'')]) 200),
        empty_db\<lparr>wallet_connections := [stored (create_kwargs metamask_post) noon]\<rparr>)
   \<and> behavior_metrics
       (empty_db\<lparr>wallet_connections := [stored (create_kwargs metamask_post) noon]\<rparr>)
       (user_id alice) = None"
  by (simp add: metamask_post_def track_wallet_connection_def api_view_def jwt_settings_def
      track_wallet_connection_func_def track_wallet_connection_try_def objects_create_def
      accepts_all_def empty_db_def alice_def)

text \<open>
  C6. In the record persisted for an authenticated POST, a payload field that is
  missing takes its default: provider \<^verbatim>\<open>other\<close>, address empty, status
  \<^verbatim>\<open>failed\<close>, error message empty; the address of the client and the user agent are
  those of the request's metadata, \<^verbatim>\<open>REMOTE_ADDR\<close> and \<^verbatim>\<open>HTTP_USER_AGENT\<close>.
\<close>

theorem track_wallet_connection_defaults:
  assumes "user request = User u"
    and "http_method request = ''POST''"
    and "rejects s (create_kwargs request) = None"
  shows "\<exists>row.
           wallet_connections (snd (track_wallet_connection cfg rejects update_metrics now request s))
             = wallet_connections s @ [row]
           \<and> wallet_provider row = (case data request ''provider'' of None \<Rightarrow> ''other'' | Some v \<Rightarrow> v)
           \<and> wallet_address row = (case data request ''address'' of None \<Rightarrow> [] | Some v \<Rightarrow> v)
           \<and> connection_status row = (case data request ''status'' of None \<Rightarrow> ''failed'' | Some v \<Rightarrow> v)
           \<and> error_message row = (case data request ''error'' of None \<Rightarrow> [] | Some v \<Rightarrow> v)
           \<and> ip_address row = (case META request ''REMOTE_ADDR'' of None \<Rightarrow> [] | Some v \<Rightarrow> v)
           \<and> user_agent row = (case META request ''HTTP_USER_AGENT'' of None \<Rightarrow> [] | Some v \<Rightarrow> v)"
proof -
  have "wallet_connections (snd (track_wallet_connection cfg rejects update_metrics now request s))
          = wallet_connections s @ [stored (create_kwargs request) now]"
  proof (cases "behavior_metrics s (user_id u)")
    case None
    with assms show ?thesis
      by (simp add: track_endpoint_post track_func_no_metrics)
  next
    case (Some m)
    show ?thesis
    proof (cases "update_metrics
                    (s\<lparr>wallet_connections :=
                         wallet_connections s @ [stored (create_kwargs request) now]\<rparr>) m")
      case (Inl e)
      with Some assms show ?thesis
        by (simp add: track_endpoint_post track_func_update_raises)
    next
      case (Inr m')
      with Some assms show ?thesis
        by (simp add: track_endpoint_post track_func_updated)
    qed
  qed
  then show ?thesis
    by (simp add: stored_def create_kwargs_def dict_get_def)
qed

theorem track_wallet_connection_defaults_witness:
  "accepts_all empty_db (create_kwargs bare_post) = None
   \<and> data bare_post ''provider'' = None \<and> data bare_post ''address'' = None
   \<and> data bare_post ''status'' = None \<and> data bare_post ''error'' = None
   \<and> (\<exists>row.
         wallet_connections
           (snd (track_wallet_connection jwt_settings accepts_all count_update noon bare_post
                   empty_db)) = [row]
         \<and> wallet_provider row = ''other'' \<and> wallet_address row = []
         \<and> connection_status row = ''failed'' \<and> error_message row = []
         \<and> ip_address row = ''203.0.113.9'' \<and> user_agent row = ''curl/8'')"
proof -
  have a: "user bare_post = User alice"
    by (simp add: bare_post_def)
  have b: "http_method bare_post = ''POST''"
    by (simp add: bare_post_def)
  have c: "accepts_all empty_db (create_kwargs bare_post) = None"
    by (simp add: accepts_all_def)
  have d: "data bare_post ''provider'' = None \<and> data bare_post ''address'' = None
           \<and> data bare_post ''status'' = None \<and> data bare_post ''error'' = None"
    by (simp add: bare_post_def)
  have e: "META bare_post ''REMOTE_ADDR'' = Some ''203.0.113.9''"
    "META bare_post ''HTTP_USER_AGENT'' = Some ''curl/8''"
    "wallet_connections empty_db = []"
    by (simp_all add: bare_post_def empty_db_def)
  from track_wallet_connection_defaults
    [where rejects = accepts_all and s = empty_db and update_metrics = count_update
       and now = noon and cfg = jwt_settings, OF a b c]
  have "\<exists>row.
         wallet_connections
           (snd (track_wallet_connection jwt_settings accepts_all count_update noon bare_post
                   empty_db)) = [row]
         \<and> wallet_provider row = ''other'' \<and> wallet_address row = []
         \<and> connection_status row = ''failed'' \<and> error_message row = []
         \<and> ip_address row = ''203.0.113.9'' \<and> user_agent row = ''curl/8''"
    by (simp add: d e)
  with c d show ?thesis by blast
qed

text \<open>
  C9, as amended. For an authenticated POST of a user without behaviour metrics that
  the store accepts, exactly one record is persisted: the acting user's, with the
  payload's fields or their defaults, the client address and user agent of the request,
  and the time of the attempt. The metrics update is skipped (the update routine plays
  no part, and the metrics of the store are as before) and the answer is
  \<^verbatim>\<open>{"status": "success"}\<close> with status 200.
\<close>

theorem track_wallet_connection_without_metrics:
  assumes "user request = User u"
    and "http_method request = ''POST''"
    and "behavior_metrics s (user_id u) = None"
    and "rejects s (create_kwargs request) = None"
  shows "\<exists>row.
           track_wallet_connection cfg rejects update_metrics now request s =
             (Inr (Response (Dict [(''status'', ''success'')]) 200),
              s\<lparr>wallet_connections := wallet_connections s @ [row]\<rparr>)
           \<and> wc_user row = User u
           \<and> wallet_provider row = (case data request ''provider'' of None \<Rightarrow> ''other'' | Some v \<Rightarrow> v)
           \<and> wallet_address row = (case data request ''address'' of None \<Rightarrow> [] | Some v \<Rightarrow> v)
           \<and> connection_status row = (case data request ''status'' of None \<Rightarrow> ''failed'' | Some v \<Rightarrow> v)
           \<and> error_message row = (case data request ''error'' of None \<Rightarrow> [] | Some v \<Rightarrow> v)
           \<and> ip_address row = (case META request ''REMOTE_ADDR'' of None \<Rightarrow> [] | Some v \<Rightarrow> v)
           \<and> user_agent row = (case META request ''HTTP_USER_AGENT'' of None \<Rightarrow> [] | Some v \<Rightarrow> v)
           \<and> attempted_at row = now
           \<and> behavior_metrics (s\<lparr>wallet_connections := wallet_connections s @ [row]\<rparr>)
               = behavior_metrics s"
proof (intro exI [of _ "stored (create_kwargs request) now"] conjI)
  show "track_wallet_connection cfg rejects update_metrics now request s =
          (Inr (Response (Dict [(''status'', ''success'')]) 200),
           s\<lparr>wallet_connections := wallet_connections s @ [stored (create_kwargs request) now]\<rparr>)"
    using assms by (simp add: track_endpoint_post track_func_no_metrics)
  show "wc_user (stored (create_kwargs request) now) = User u"
    using assms(1) by (simp add: stored_def create_kwargs_def)
qed (simp_all add: stored_def create_kwargs_def dict_get_def)

theorem track_wallet_connection_without_metrics_witness:
  "behavior_metrics empty_db (user_id alice) = None
   \<and> accepts_all empty_db (create_kwargs metamask_post) = None
   \<and> (\<exists>row.
         track_wallet_connection jwt_settings accepts_all failing_update noon metamask_post
           empty_db =
           (Inr (Response (Dict [(''status'', ''success'')]) 200),
            empty_db\<lparr>wallet_connections := [row]\<rparr>)
         \<and> wc_user row = User alice \<and> wallet_provider row = ''metamask''
         \<and> wallet_address row = [] \<and> connection_status row = ''success''
         \<and> error_message row = [] \<and> ip_address row = ''203.0.113.9''
         \<and> user_agent row = ''curl/8'' \<and> attempted_at row = noon)"
proof -
  have a: "user metamask_post = User alice"
    by (simp add: metamask_post_def)
  have b: "http_method metamask_post = ''POST''"
    by (simp add: metamask_post_def)
  have c: "behavior_metrics empty_db (user_id alice) = None"
    by (simp add: empty_db_def)
  have d: "accepts_all empty_db (create_kwargs metamask_post) = None"
    by (simp add: accepts_all_def)
  have e: "wallet_connections empty_db = []"
    "data metamask_post ''provider'' = Some ''metamask''"
    "data metamask_post ''address'' = None"
    "data metamask_post ''status'' = Some ''success''"
    "data metamask_post ''error'' = None"
    "META metamask_post ''REMOTE_ADDR'' = Some ''203.0.113.9''"
    "META metamask_post ''HTTP_USER_AGENT'' = Some ''curl/8''"
    by (simp_all add: empty_db_def metamask_post_def)
  from track_wallet_connection_without_metrics
    [where rejects = accepts_all and s = empty_db and update_metrics = failing_update
       and now = noon and cfg = jwt_settings, OF a b c d]
  have "\<exists>row.
         track_wallet_connection jwt_settings accepts_all failing_update noon metamask_post
           empty_db =
           (Inr (Response (Dict [(''status'', ''success'')]) 200),
            empty_db\<lparr>wallet_connections := [row]\<rparr>)
         \<and> wc_user row = User alice \<and> wallet_provider row = ''metamask''
         \<and> wallet_address row = [] \<and> connection_status row = ''success''
         \<and> error_message row = [] \<and> ip_address row = ''203.0.113.9''
         \<and> user_agent row = ''curl/8'' \<and> attempted_at row = noon"
    by (simp add: e)
  with c d show ?thesis by blast
qed

text \<open>
  C9 as stated fails when the store refuses the record: the same user without
  behaviour metrics is answered with status 400, and nothing is persisted.
\<close>

theorem track_wallet_connection_without_metrics_counterexample:
  "user metamask_post = User alice
   \<and> behavior_metrics empty_db (user_id alice) = None
   \<and> track_wallet_connection jwt_settings store_down count_update noon metamask_post empty_db =
       (Inr (Response (Dict [(''status'', ''error''),
                             (''message'', ''could not connect to server'')]) 400), empty_db)"
  by (simp add: metamask_post_def empty_db_def alice_def track_wallet_connection_def
      api_view_def jwt_settings_def track_wallet_connection_func_def
      track_wallet_connection_try_def objects_create_def store_down_def)

section \<open>The staff gate: properties\<close>

lemma staff_gate_anonymous:
  "user request = AnonymousUser \<Longrightarrow>
   api_view cfg methods [IsAuthenticated] func request s = (Inr (permission_denied cfg request), s)"
  by (simp add: api_view_def)

text \<open>
  Without a credential the gate answers 401 when the first configured authenticator has
  a \<^verbatim>\<open>WWW-Authenticate\<close> header, as token authentication has.
\<close>

lemma staff_gate_no_credential:
  "user request = AnonymousUser \<Longrightarrow> authenticators cfg = Some h # rest \<Longrightarrow>
   jwt_staff_required cfg view_func request s =
     (Inr (Response (Dict [(''detail'', ''Authentication credentials were not provided.'')]) 401),
      s)"
  by (simp add: jwt_staff_required_def staff_gate_anonymous permission_denied_def)

lemma staff_gate_non_staff:
  "user request = User u \<Longrightarrow> \<not> is_staff u \<Longrightarrow> http_method request = ''GET'' \<Longrightarrow>
   api_view cfg [''GET''] [IsAuthenticated] (user_passes_test cfg is_staff_user view_func) request s
     = (Inr (redirect_to_login (LOGIN_URL cfg)), s)"
  by (simp add: api_view_def user_passes_test_def is_staff_user_def)

lemma staff_gate_staff:
  "user request = User u \<Longrightarrow> is_staff u \<Longrightarrow> http_method request = ''GET'' \<Longrightarrow>
   api_view cfg [''GET''] [IsAuthenticated] (user_passes_test cfg is_staff_user view_func) request s
     = view_func request s"
  by (simp add: api_view_def user_passes_test_def is_staff_user_def)

lemma jwt_staff_required_staff:
  "user request = User u \<Longrightarrow> is_staff u \<Longrightarrow> http_method request = ''GET'' \<Longrightarrow>
   jwt_staff_required cfg view_func request s = view_func request s"
  by (simp add: jwt_staff_required_def staff_gate_staff)

text \<open>
  C2. The docstring of \<^verbatim>\<open>jwt_staff_required\<close> promises 403 for an authenticated user
  who is not staff. The decorator stack answers such a GET with the redirect of
  \<^verbatim>\<open>user_passes_test\<close> to the login page, status 302, on the endpoints wrapped by
  \<^verbatim>\<open>jwt_staff_required\<close> (any view function) and on the three JSON endpoints; the
  view does not run and the store is as it was.
\<close>

theorem staff_gate_redirects_non_staff:
  assumes "user request = User u"
    and "\<not> is_staff u"
    and "http_method request = ''GET''"
  shows "jwt_staff_required cfg view_func request s = (Inr (redirect_to_login (LOGIN_URL cfg)), s)
       \<and> api_session_data cfg get_session_analytics request s
           = (Inr (redirect_to_login (LOGIN_URL cfg)), s)
       \<and> api_wallet_data cfg get_wallet_analytics request s
           = (Inr (redirect_to_login (LOGIN_URL cfg)), s)
       \<and> api_user_segments cfg get_user_segmentation request s
           = (Inr (redirect_to_login (LOGIN_URL cfg)), s)
       \<and> status_code (redirect_to_login (LOGIN_URL cfg) :: ('d, 'c) response) = 302"
  using assms
  by (simp add: jwt_staff_required_def api_session_data_def api_wallet_data_def
      api_user_segments_def staff_gate_non_staff)

theorem staff_gate_redirects_non_staff_witness:
  "user alice_get = User alice \<and> \<not> is_staff alice \<and> http_method alice_get = ''GET''
   \<and> api_session_data jwt_settings no_session_summary alice_get empty_db
       = (Inr (redirect_to_login ''/accounts/login/''), empty_db)
   \<and> wallet_trends jwt_settings no_summary noon alice_get empty_db
       = (Inr (redirect_to_login ''/accounts/login/''), empty_db)"
proof -
  have a: "user alice_get = User alice"
    by (simp add: alice_get_def)
  have b: "\<not> is_staff alice"
    by (simp add: alice_def)
  have c: "http_method alice_get = ''GET''"
    by (simp add: alice_get_def)
  have d: "LOGIN_URL jwt_settings = ''/accounts/login/''"
    by (simp add: jwt_settings_def)
  show ?thesis
    using a b c d
      staff_gate_redirects_non_staff
        [where cfg = jwt_settings and s = empty_db and get_session_analytics = no_session_summary
           and view_func = "wallet_trends_func no_summary noon"
           and get_wallet_analytics = no_summary and get_user_segmentation = no_summary,
         OF a b c]
    by (simp add: wallet_trends_def)
qed

section \<open>Reading the day count: properties\<close>

text \<open>
  An information separator is not white space for \<^verbatim>\<open>int()\<close>, and a text of 4301
  digits is over the cap.
\<close>

lemma int_of_text_separator:
  "int_of_text [CHR 0x1C, CHR ''5''] = None"
  by (simp add: int_of_text_def strip_def is_space_def digits_def is_digit_def)

lemma digits_over_cap:
  "max_str_digits < length (filter is_digit s) \<Longrightarrow> digits s = None"
  by (simp add: digits_def)

lemma int_of_text_over_cap:
  "int_of_text (replicate 4301 (CHR ''0'')) = None"
proof -
  have "(4301::nat) = Suc 4300"
    by simp
  then have head: "replicate 4301 (CHR ''0'') = CHR ''0'' # replicate 4300 (CHR ''0'')"
    by (simp only: replicate_Suc)
  have "strip (replicate 4301 (CHR ''0'')) = replicate 4301 (CHR ''0'')"
    by (simp add: strip_def is_space_def dropWhile_replicate)
  moreover have "digits (replicate 4301 (CHR ''0'')) = None"
    by (rule digits_over_cap) (simp add: is_digit_def max_str_digits_def)
  ultimately show ?thesis
    unfolding int_of_text_def by (simp add: head)
qed

text \<open>
  C10. For a staff GET whose \<^verbatim>\<open>days\<close> parameter is text that \<^verbatim>\<open>int()\<close> rejects,
  \<^verbatim>\<open>wallet_trends\<close> and \<^verbatim>\<open>api_session_data\<close> raise the \<^verbatim>\<open>ValueError\<close> of the
  conversion: the exception leaves the view, which returns no response.
\<close>

theorem days_not_an_integer_raises:
  assumes "user request = User u"
    and "is_staff u"
    and "http_method request = ''GET''"
    and "GET request ''days'' = Some v"
    and "int_of_text v = None"
    and "get_wallet_analytics s = Inr w"
  shows "wallet_trends cfg get_wallet_analytics now request s = (Inl (ValueError v), s)
       \<and> api_session_data cfg get_session_analytics request s = (Inl (ValueError v), s)"
  using assms
  by (simp add: wallet_trends_def jwt_staff_required_staff api_session_data_def staff_gate_staff
      wallet_trends_func_def api_session_data_func_def py_int_def query_get_def)

theorem days_not_an_integer_raises_witness:
  "GET abc_days_get ''days'' = Some ''abc'' \<and> int_of_text ''abc'' = None
   \<and> wallet_trends jwt_settings no_summary noon abc_days_get empty_db
       = (Inl (ValueError ''abc''), empty_db)
   \<and> api_session_data jwt_settings no_session_summary abc_days_get empty_db
       = (Inl (ValueError ''abc''), empty_db)"
proof -
  have a: "user abc_days_get = User admin"
    by (simp add: abc_days_get_def admin_get_def)
  have b: "is_staff admin"
    by (simp add: admin_def)
  have c: "http_method abc_days_get = ''GET''"
    by (simp add: abc_days_get_def admin_get_def)
  have d: "GET abc_days_get ''days'' = Some ''abc''"
    by (simp add: abc_days_get_def admin_get_def)
  have e: "int_of_text ''abc'' = None"
    by (simp add: int_of_text_def strip_def is_space_def digits_def is_digit_def)
  have f: "no_summary empty_db = Inr ()"
    by (simp add: no_summary_def)
  show ?thesis
    using d e
      days_not_an_integer_raises
        [where cfg = jwt_settings and now = noon and get_session_analytics = no_session_summary
           and get_wallet_analytics = no_summary and s = empty_db,
         OF a b c d e f]
    by simp
qed

section \<open>Retention analysis: properties\<close>

text \<open>
  C8, as amended. For a staff GET, the period type handed to the cohort builder is the
  \<^verbatim>\<open>period\<close> query parameter as it was given, and \<^verbatim>\<open>weekly\<close> when it is absent;
  the same value selects the rows that are rendered. The view does not check it against
  an enumeration.
\<close>

theorem retention_analysis_period_type:
  assumes "user request = User u"
    and "is_staff u"
    and "http_method request = ''GET''"
  shows "retention_analysis cfg calc strftime request s =
           (case calc (case GET request ''period'' of None \<Rightarrow> ''weekly'' | Some p \<Rightarrow> p) s of
              (Inl e, s1) \<Rightarrow> (Inl e, s1)
            | (Inr x, s1) \<Rightarrow>
                (Inr (render ''analytics/retention.html''
                        \<lparr>ctx_period_type =
                           (case GET request ''period'' of None \<Rightarrow> ''weekly'' | Some p \<Rightarrow> p),
                         ctx_cohort_data =
                           group_cohorts strftime
                             (order_cohorts
                                (filter
                                   (\<lambda>c. period_type c =
                                      (case GET request ''period'' of None \<Rightarrow> ''weekly''
                                       | Some p \<Rightarrow> p))
                                   (retention_cohorts s1)))\<rparr>), s1))"
  using assms
  unfolding retention_analysis_def retention_analysis_func_def dict_get_def
  by (simp add: jwt_staff_required_staff)

theorem retention_analysis_period_type_witness:
  "GET (admin_get Map.empty) ''period'' = None
   \<and> retention_analysis jwt_settings probe_builder day_number (admin_get Map.empty) empty_db
       = (Inl (Raised ''weekly''), empty_db)"
proof -
  have a: "user (admin_get Map.empty) = User admin"
    by (simp add: admin_get_def)
  have b: "is_staff admin"
    by (simp add: admin_def)
  have c: "http_method (admin_get Map.empty) = ''GET''"
    by (simp add: admin_get_def)
  have d: "GET (admin_get Map.empty) ''period'' = None"
    by (simp add: admin_get_def)
  show ?thesis
    using d
      retention_analysis_period_type
        [where cfg = jwt_settings and calc = probe_builder and strftime = day_number
           and s = empty_db, OF a b c]
    by (simp add: probe_builder_def)
qed

text \<open>
  C8 as stated fails: with \<^verbatim>\<open>period=yearly\<close> the builder is called with
  \<^verbatim>\<open>yearly\<close>, as a builder that raises its argument shows.
\<close>

theorem retention_analysis_period_type_counterexample:
  "retention_analysis jwt_settings probe_builder day_number yearly_get empty_db
     = (Inl (Raised ''yearly''), empty_db)
   \<and> ''yearly'' \<notin> {''daily'', ''weekly'', ''monthly''}"
  by (simp add: retention_analysis_def jwt_staff_required_def api_view_def user_passes_test_def
      is_staff_user_def retention_analysis_func_def dict_get_def probe_builder_def yearly_get_def
      admin_get_def admin_def)

section \<open>Wallet trends: properties\<close>

lemma day_count_into [simp]: "day (count_into c r) = day r"
  by (simp add: count_into_def)

lemma day_tally [simp]: "day (tally cs d) = d"
  by (simp add: tally_def)

lemma days_group_by_day:
  "map day (group_by_day c rs) =
     (if date (attempted_at c) \<in> set (map day rs) then map day rs
      else map day rs @ [date (attempted_at c)])"
  by (induction rs) auto

lemma tally_Cons_same:
  "count_into c (tally seen (date (attempted_at c))) = tally (c # seen) (date (attempted_at c))"
  by (simp add: tally_def count_into_def)

lemma tally_Cons_other:
  "d \<noteq> date (attempted_at c) \<Longrightarrow> tally (c # seen) d = tally seen d"
  by (simp add: tally_def)

lemma tally_absent:
  "d \<notin> (\<lambda>c. date (attempted_at c)) ` set seen \<Longrightarrow>
   tally seen d = \<lparr>day = d, total = 0, successful = 0, failed = 0\<rparr>"
proof -
  assume "d \<notin> (\<lambda>c. date (attempted_at c)) ` set seen"
  then have "\<And>P. [c \<leftarrow> seen. date (attempted_at c) = d \<and> P c] = []"
    "[c \<leftarrow> seen. date (attempted_at c) = d] = []"
    by (auto simp: filter_empty_conv)
  then show ?thesis by (simp add: tally_def)
qed

lemma rows_group_by_day:
  assumes "distinct (map day rs)"
    and "\<forall>r \<in> set rs. r = tally seen (day r)"
    and "date (attempted_at c) \<notin> day ` set rs \<longrightarrow>
         date (attempted_at c) \<notin> (\<lambda>c. date (attempted_at c)) ` set seen"
  shows "\<forall>r \<in> set (group_by_day c rs). r = tally (c # seen) (day r)"
  using assms
proof (induction rs)
  case Nil
  then have "tally seen (date (attempted_at c))
               = \<lparr>day = date (attempted_at c), total = 0, successful = 0, failed = 0\<rparr>"
    by (simp add: tally_absent)
  then show ?case
    using tally_Cons_same [of c seen] by simp
next
  case (Cons r rs)
  have head: "r = tally seen (day r)"
    using Cons.prems(2) by simp
  show ?case
  proof (cases "day r = date (attempted_at c)")
    case True
    have "count_into c r = tally (c # seen) (day r)"
      using head True tally_Cons_same [of c seen] by simp
    moreover have "x = tally (c # seen) (day x)" if "x \<in> set rs" for x
    proof -
      have "day r \<notin> day ` set rs"
        using Cons.prems(1) by simp
      then have "day x \<noteq> date (attempted_at c)"
        using that True by force
      moreover have "x = tally seen (day x)"
        using that Cons.prems(2) by simp
      ultimately show ?thesis
        by (simp add: tally_Cons_other)
    qed
    ultimately show ?thesis
      using True by simp
  next
    case False
    have "r = tally (c # seen) (day r)"
      using head False by (simp add: tally_Cons_other)
    moreover have "\<forall>x \<in> set (group_by_day c rs). x = tally (c # seen) (day x)"
    proof (rule Cons.IH)
      show "distinct (map day rs)"
        using Cons.prems(1) by simp
      show "\<forall>r \<in> set rs. r = tally seen (day r)"
        using Cons.prems(2) by simp
      show "date (attempted_at c) \<notin> day ` set rs \<longrightarrow>
            date (attempted_at c) \<notin> (\<lambda>c. date (attempted_at c)) ` set seen"
        using Cons.prems(3) False by auto
    qed
    ultimately show ?thesis
      using False by simp
  qed
qed

lemma group_by_day_invariant:
  assumes "distinct (map day rs)"
    and "day ` set rs = (\<lambda>c. date (attempted_at c)) ` set seen"
    and "\<forall>r \<in> set rs. r = tally seen (day r)"
  shows "distinct (map day (group_by_day c rs))
       \<and> day ` set (group_by_day c rs) = (\<lambda>c. date (attempted_at c)) ` set (c # seen)
       \<and> (\<forall>r \<in> set (group_by_day c rs). r = tally (c # seen) (day r))"
proof (intro conjI)
  show "distinct (map day (group_by_day c rs))"
    using assms(1) by (simp add: days_group_by_day)
  have "day ` set (group_by_day c rs) = set (map day (group_by_day c rs))"
    by simp
  also have "\<dots> = insert (date (attempted_at c)) (day ` set rs)"
    by (auto simp add: days_group_by_day)
  finally show "day ` set (group_by_day c rs) = (\<lambda>c. date (attempted_at c)) ` set (c # seen)"
    using assms(2) by simp
  show "\<forall>r \<in> set (group_by_day c rs). r = tally (c # seen) (day r)"
    using assms by (intro rows_group_by_day) auto
qed

lemma fold_group_by_day_invariant:
  assumes "distinct (map day rs)"
    and "day ` set rs = (\<lambda>c. date (attempted_at c)) ` set seen"
    and "\<forall>r \<in> set rs. r = tally seen (day r)"
  shows "distinct (map day (fold group_by_day cs rs))
       \<and> day ` set (fold group_by_day cs rs) = (\<lambda>c. date (attempted_at c)) ` set (rev cs @ seen)
       \<and> (\<forall>r \<in> set (fold group_by_day cs rs). r = tally (rev cs @ seen) (day r))"
  using assms
proof (induction cs arbitrary: rs seen)
  case Nil
  then show ?case by simp
next
  case (Cons c cs)
  from group_by_day_invariant [OF Cons.prems, of c]
  have "distinct (map day (fold group_by_day cs (group_by_day c rs)))
       \<and> day ` set (fold group_by_day cs (group_by_day c rs))
           = (\<lambda>c. date (attempted_at c)) ` set (rev cs @ c # seen)
       \<and> (\<forall>r \<in> set (fold group_by_day cs (group_by_day c rs)).
             r = tally (rev cs @ c # seen) (day r))"
    by (intro Cons.IH) blast+
  then show ?case by simp
qed

lemma tally_rev: "tally (rev cs) d = tally cs d"
  by (simp add: tally_def flip: rev_filter)

lemma annotate_invariant:
  "distinct (map day (annotate cs))
   \<and> day ` set (annotate cs) = (\<lambda>c. date (attempted_at c)) ` set cs
   \<and> (\<forall>r \<in> set (annotate cs). r = tally cs (day r))"
  using fold_group_by_day_invariant [of "[]" "[]" cs]
  by (simp add: annotate_def tally_rev)

lemma sort_key_annotate:
  "sort_key day (annotate cs)
     = map (tally cs) (sort (remdups (map (\<lambda>c. date (attempted_at c)) cs)))"
proof -
  let ?rs = "sort_key day (annotate cs)"
  have rows: "\<forall>r \<in> set ?rs. tally cs (day r) = r"
    using annotate_invariant [of cs] by auto
  have "map day ?rs = sort (remdups (map (\<lambda>c. date (attempted_at c)) cs))"
  proof (rule sorted_distinct_set_unique)
    show "sorted (map day ?rs)"
      by (rule sorted_sort_key)
    show "distinct (map day ?rs)"
      using annotate_invariant [of cs] by (simp add: distinct_map)
    show "sorted (sort (remdups (map (\<lambda>c. date (attempted_at c)) cs)))"
      by simp
    show "distinct (sort (remdups (map (\<lambda>c. date (attempted_at c)) cs)))"
      by simp
    show "set (map day ?rs) = set (sort (remdups (map (\<lambda>c. date (attempted_at c)) cs)))"
      using annotate_invariant [of cs] by simp
  qed
  then have "map (tally cs) (sort (remdups (map (\<lambda>c. date (attempted_at c)) cs)))
               = map (tally cs) (map day ?rs)"
    by (rule arg_cong [OF sym])
  also have "\<dots> = map (\<lambda>r. tally cs (day r)) ?rs"
    by (simp add: comp_def)
  also have "\<dots> = ?rs"
    by (rule map_idI) (use rows in simp)
  finally show ?thesis by simp
qed

lemma daily_connections_query_breakdown:
  "daily_connections_query s start_date = daily_breakdown (wallet_connections s) start_date"
  by (simp add: daily_connections_query_def daily_breakdown_def sort_key_annotate tally_def
      conj_commute conj_left_commute)

text \<open>
  C7. For a staff GET whose day count reads as \<open>days\<close> (30 when the parameter is
  absent) and lies within the range of date arithmetic, \<^verbatim>\<open>wallet_trends\<close> renders its
  template with the daily breakdown of the specification: the connections attempted at
  or after now minus \<open>days\<close> days, grouped by calendar day, each day with its total,
  its successful and its failed count, in ascending order of the day.
\<close>

theorem wallet_trends_daily_breakdown:
  assumes "user request = User u"
    and "is_staff u"
    and "http_method request = ''GET''"
    and "get_wallet_analytics s = Inr w"
    and "case GET request ''days'' of None \<Rightarrow> days = 30 | Some v \<Rightarrow> int_of_text v = Some days"
    and "\<bar>days\<bar> \<le> 999999999"
    and "0 \<le> now - days * us_per_day"
    and "now - days * us_per_day < 3652059 * us_per_day"
  shows "wallet_trends cfg get_wallet_analytics now request s =
           (Inr (render ''analytics/wallet_trends.html''
                   \<lparr>ctx_wallet_data = w,
                    ctx_daily_connections =
                      daily_breakdown (wallet_connections s) (now - days * us_per_day),
                    ctx_days = days\<rparr>), s)"
proof -
  have parsed: "py_int (query_get (GET request) ''days'' 30) = Inr days"
  proof (cases "GET request ''days''")
    case None
    with assms(5) show ?thesis
      by (simp add: py_int_def query_get_def)
  next
    case (Some v)
    with assms(5) show ?thesis
      by (simp add: py_int_def query_get_def)
  qed
  have delta: "timedelta days = Inr (days * us_per_day)"
    using assms(6) by (simp add: timedelta_def)
  have start: "datetime_sub now (days * us_per_day) = Inr (now - days * us_per_day)"
    using assms(7,8) by (simp add: datetime_sub_def)
  have "wallet_trends cfg get_wallet_analytics now request s =
          wallet_trends_func get_wallet_analytics now request s"
    using assms(1-3) by (simp add: wallet_trends_def jwt_staff_required_staff)
  then show ?thesis
    using assms(4) parsed delta start
    by (simp add: wallet_trends_func_def daily_connections_query_breakdown)
qed

theorem wallet_trends_daily_breakdown_witness:
  "wallet_trends jwt_settings no_summary noon two_days_get trend_db =
     (Inr (render ''analytics/wallet_trends.html''
             \<lparr>ctx_wallet_data = (),
              ctx_daily_connections =
                [\<lparr>day = 738999, total = 1, successful = 1, failed = 0\<rparr>,
                 \<lparr>day = 739000, total = 3, successful = 1, failed = 1\<rparr>],
              ctx_days = 2\<rparr>), trend_db)"
proof -
  have a: "user two_days_get = User admin"
    by (simp add: two_days_get_def admin_get_def)
  have b: "is_staff admin"
    by (simp add: admin_def)
  have c: "http_method two_days_get = ''GET''"
    by (simp add: two_days_get_def admin_get_def)
  have d: "no_summary trend_db = Inr ()"
    by (simp add: no_summary_def)
  have e: "case GET two_days_get ''days'' of None \<Rightarrow> (2::int) = 30
           | Some v \<Rightarrow> int_of_text v = Some 2"
    by (simp add: two_days_get_def admin_get_def int_of_text_def strip_def is_space_def
        digits_def max_str_digits_def is_digit_def digit_value_def)
  have f: "\<bar>2::int\<bar> \<le> 999999999"
    by simp
  have g: "0 \<le> noon - 2 * us_per_day"
    by (simp add: noon_def us_per_day_def)
  have h: "noon - 2 * us_per_day < 3652059 * us_per_day"
    by (simp add: noon_def us_per_day_def)
  have rows: "daily_breakdown (wallet_connections trend_db) (noon - 2 * us_per_day) =
                [\<lparr>day = 738999, total = 1, successful = 1, failed = 0\<rparr>,
                 \<lparr>day = 739000, total = 3, successful = 1, failed = 1\<rparr>]"
    by (simp add: daily_breakdown_def trend_db_def attempt_def noon_def us_per_day_def date_def)
  show ?thesis
    using wallet_trends_daily_breakdown
      [where cfg = jwt_settings and get_wallet_analytics = no_summary and now = noon
         and s = trend_db and days = 2, OF a b c d e f g h]
    by (simp add: rows)
qed

section \<open>The cohort builder: properties\<close>

lemma cohort_row_counts:
  "retained_users (cohort_row period_of ptype sessions c n)
     \<le> total_users (cohort_row period_of ptype sessions c n)"
  by (simp add: cohort_row_def)

lemma cohort_row_rate:
  "retention_rate (cohort_row period_of ptype sessions c n) =
     (if total_users (cohort_row period_of ptype sessions c n) = 0 then 0
      else of_nat (retained_users (cohort_row period_of ptype sessions c n))
           / of_nat (total_users (cohort_row period_of ptype sessions c n)))"
  by (simp add: cohort_row_def)

lemma cohort_rows_member:
  assumes "r \<in> set (cohort_rows period_of ptype now sessions)"
  shows "\<exists>c n. r = cohort_row period_of ptype sessions c n"
  using assms by (auto simp add: cohort_rows_def split: list.splits)

lemma set_upsert: "set (upsert r xs) \<subseteq> insert r (set xs)"
  by (induction xs) auto

lemma set_fold_upsert: "set (fold upsert rs xs) \<subseteq> set rs \<union> set xs"
proof (induction rs arbitrary: xs)
  case Nil
  then show ?case by simp
next
  case (Cons r rs)
  have "set (fold upsert rs (upsert r xs)) \<subseteq> set rs \<union> set (upsert r xs)"
    by (rule Cons.IH)
  also have "\<dots> \<subseteq> set rs \<union> insert r (set xs)"
    using set_upsert [of r xs] by blast
  finally show ?case by auto
qed

text \<open>
  C5. Every row that a run of the cohort builder writes into the store has
  \<open>0 \<le> retained_users \<le> total_users\<close>, and its retention rate is
  \<open>retained_users / total_users\<close>, and 0 when \<open>total_users\<close> is 0. The builder is the
  one modelled from section 4.1 of the specification, with exact rational rates.
\<close>

theorem calculate_retention_cohorts_rows:
  assumes "r \<in> set (retention_cohorts
                       (snd (calculate_retention_cohorts period_of sessions now ptype s)))"
    and "r \<notin> set (retention_cohorts s)"
  shows "0 \<le> retained_users r \<and> retained_users r \<le> total_users r
       \<and> retention_rate r =
           (if total_users r = 0 then 0
            else of_nat (retained_users r) / of_nat (total_users r))"
proof -
  have "r \<in> set (fold upsert (cohort_rows (period_of ptype) ptype now sessions)
                    (retention_cohorts s))"
    using assms(1) by (simp add: calculate_retention_cohorts_def)
  then have "r \<in> set (cohort_rows (period_of ptype) ptype now sessions)"
    using assms(2) set_fold_upsert by blast
  then obtain c n where "r = cohort_row (period_of ptype) ptype sessions c n"
    using cohort_rows_member by blast
  then show ?thesis
    using cohort_row_counts [of "period_of ptype" ptype sessions c n]
      cohort_row_rate [of "period_of ptype" ptype sessions c n]
    by simp
qed

lemma week_rows:
  "retention_cohorts
     (snd (calculate_retention_cohorts week_of week_sessions (15 * us_per_day) ''weekly'' empty_db))
   = [\<lparr>cohort_date = 1, period_type = ''weekly'', period_number = 0, total_users = 10,
       retained_users = 10, retention_rate = 1\<rparr>,
      week_two_row,
      \<lparr>cohort_date = 2, period_type = ''weekly'', period_number = 0, total_users = 0,
       retained_users = 0, retention_rate = 0\<rparr>]"
  by (simp add: calculate_retention_cohorts_def empty_db_def cohort_rows_def week_sessions_def
      week_of_def us_per_day_def cohort_row_def cohort_members_def first_period_def
      active_in_def upt_rec upto.simps week_two_row_def)

theorem calculate_retention_cohorts_rows_witness:
  "week_two_row \<in> set (retention_cohorts
                          (snd (calculate_retention_cohorts week_of week_sessions
                                  (15 * us_per_day) ''weekly'' empty_db)))
   \<and> week_two_row \<notin> set (retention_cohorts empty_db)
   \<and> retained_users week_two_row \<le> total_users week_two_row
   \<and> retention_rate week_two_row
       = of_nat (retained_users week_two_row) / of_nat (total_users week_two_row)"
proof -
  have a: "week_two_row \<in> set (retention_cohorts
                                  (snd (calculate_retention_cohorts week_of week_sessions
                                          (15 * us_per_day) ''weekly'' empty_db)))"
    by (simp add: week_rows)
  have b: "week_two_row \<notin> set (retention_cohorts empty_db)"
    by (simp add: empty_db_def)
  have c: "total_users week_two_row \<noteq> 0"
    by (simp add: week_two_row_def)
  show ?thesis
    using a b c calculate_retention_cohorts_rows [OF a b] by simp
qed

end
